theory Spec2Isabelle
  imports Main "HOL-Library.Word"
begin

section \<open>The butlerd router (butlerd/router.go)\<close>

text \<open>
  A shallow embedding of \<^verbatim>\<open>butlerd/router.go\<close>: the method tables, \<^verbatim>\<open>Dispatch\<close>,
  the per-call \<^verbatim>\<open>RequestContext\<close> and the \<^verbatim>\<open>CancelFuncs\<close> registry.

  Conventions of the embedding.
  \<^item> A Go pointer to an object the router only hands on (a context, the connection, the
    storage pool, a client) is an address, a \<open>nat\<close>.
  \<^item> An \<^verbatim>\<open>int64\<close> is a 64-bit word. A \<^verbatim>\<open>float64\<close> is its 64-bit pattern: the router
    does no arithmetic on floats, it only passes them on.
  \<^item> A Go \<^verbatim>\<open>error\<close> value is a value of a type parameter \<open>'e\<close>; the \<^verbatim>\<open>nil\<close> error is
    \<open>None\<close> of \<open>'e option\<close>. A value of another dynamic type is \<open>'a\<close>.
  \<^item> A panic is a result: \<open>Inl\<close> of the panic value. \<^verbatim>\<open>recover\<close> is the case split on it.
  \<^item> Everything a handler can reach and change (the transport, the storage, the registry
    of cancel functions, files) is the environment \<open>'w\<close>; code outside router.go is a
    function on it, a field of the record \<open>externals\<close>.
\<close>

subsection \<open>Values\<close>

type_synonym int64 = "64 word"
type_synonym float64 = "64 word"
type_synonym ptr = nat

text \<open>An \<^verbatim>\<open>interface{}\<close> value. \<open>ProgressNotification\<close> is the struct of that name with
  its fields \<^verbatim>\<open>Progress\<close>, \<^verbatim>\<open>ETA\<close>, \<^verbatim>\<open>BPS\<close>, in this order.\<close>

datatype 'a any =
    NilValue
  | StringValue string
  | ProgressNotification float64 float64 float64
  | Opaque 'a

text \<open>What \<^verbatim>\<open>recover()\<close> returns after a panic: \<^verbatim>\<open>r.(error)\<close> succeeds on \<open>PanicError\<close>
  only, and \<open>PanicOther NilValue\<close> is the nil interface. \<^verbatim>\<open>recover()\<close> returns nil after
  \<^verbatim>\<open>panic(nil)\<close> with a toolchain before Go 1.21 (or with \<^verbatim>\<open>GODEBUG=panicnil=1\<close>); from
  Go 1.21 on it returns a \<^verbatim>\<open>*runtime.PanicNilError\<close>, a \<open>PanicError\<close>.\<close>

datatype ('e, 'a) panic_value = PanicError 'e | PanicOther "'a any"

text \<open>What the interface \<^verbatim>\<open>butlerd.Error\<close> exposes: the results of \<^verbatim>\<open>RpcErrorCode()\<close>,
  \<^verbatim>\<open>RpcErrorMessage()\<close> and \<^verbatim>\<open>RpcErrorData()\<close> (a \<^verbatim>\<open>map[string]interface{}\<close>, \<open>None\<close>
  when it is the nil map).\<close>

record 'a butlerd_Error =
  RpcErrorCode :: int64
  RpcErrorMessage :: string
  RpcErrorData :: "(string \<rightharpoonup> 'a any) option"

subsection \<open>jsonrpc2: requests and replies\<close>

record jsonrpc2_ID =
  Num :: "64 word"
  Str :: string
  IsString :: bool

record 'j Request =
  Method :: string
  req_Params :: "'j option"
  ID :: jsonrpc2_ID
  Notif :: bool

record 'j jsonrpc2_Error =
  Code :: int64
  Message :: string
  Data :: "'j option"

text \<open>A call of \<^verbatim>\<open>origConn.Reply\<close> or \<^verbatim>\<open>origConn.ReplyWithError\<close>.\<close>

datatype ('a, 'j) sent =
    Reply jsonrpc2_ID "'a any"
  | ReplyWithError jsonrpc2_ID "'j jsonrpc2_Error"

text \<open>The state \<^verbatim>\<open>Dispatch\<close> runs in: the replies made on the connection so far (latest
  last; only \<^verbatim>\<open>Dispatch\<close> holds \<^verbatim>\<open>origConn\<close>), and the environment of the handlers.\<close>

record ('a, 'j, 'w) world =
  replies :: "('a, 'j) sent list"
  env :: 'w

text \<open>The two codes of the jsonrpc2 package that router.go uses, as JSON-RPC 2.0
  fixes them.\<close>

definition CodeMethodNotFound :: int64 where
  "CodeMethodNotFound = - 32601"

definition CodeInternalError :: int64 where
  "CodeInternalError = - 32603"

subsection \<open>The request context\<close>

type_synonym ('e, 'a, 'w) NotificationInterceptor =
  "string \<Rightarrow> 'a any \<Rightarrow> 'w \<Rightarrow> 'e option \<times> 'w"

text \<open>The interface \<^verbatim>\<open>Conn\<close>, as far as router.go calls it on \<^verbatim>\<open>rc.Conn\<close>.\<close>

record ('e, 'a, 'w) Conn_iface =
  Conn_Notify :: "ptr \<Rightarrow> string \<Rightarrow> 'a any \<Rightarrow> 'w \<Rightarrow> 'e option \<times> 'w"

text \<open>The two unexported fields of \<^verbatim>\<open>RequestContext\<close>, the only ones that change during a
  call. \<open>None\<close> is the nil map and the nil tracker.\<close>

record ('e, 'a, 't, 'w) rc_private =
  notificationInterceptors :: "(string \<rightharpoonup> ('e, 'a, 'w) NotificationInterceptor) option"
  tracker :: "'t option"

type_synonym ('e, 'a, 't, 'w) hstate = "('e, 'a, 't, 'w) rc_private \<times> 'w"

text \<open>\<^verbatim>\<open>state.Consumer\<close> (wharf): its callbacks, \<open>None\<close> when nil.\<close>

record ('e, 'a, 't, 'w) Consumer =
  OnProgress :: "(float64 \<Rightarrow> ('e, 'a, 't, 'w) hstate \<Rightarrow> ('e, 'a, 't, 'w) hstate) option"
  OnProgressLabel :: "(string \<Rightarrow> ('e, 'a, 't, 'w) hstate \<Rightarrow> ('e, 'a, 't, 'w) hstate) option"
  OnPauseProgress :: "(('e, 'a, 't, 'w) hstate \<Rightarrow> ('e, 'a, 't, 'w) hstate) option"
  OnResumeProgress :: "(('e, 'a, 't, 'w) hstate \<Rightarrow> ('e, 'a, 't, 'w) hstate) option"
  OnMessage :: "(string \<Rightarrow> string \<Rightarrow> 'w \<Rightarrow> 'w) option"

record ('e, 'a, 'j, 't, 'w) RequestContext =
  Ctx :: ptr
  Consumer :: "('e, 'a, 't, 'w) Consumer"
  Params :: "'j option"
  Conn :: "('e, 'a, 'w) Conn_iface"
  CancelFuncs :: ptr
  DBPool :: ptr
  Client :: "string \<Rightarrow> ptr"
  ButlerVersion :: string
  ButlerVersionString :: string

text \<open>A handler runs on the context and the state it can reach, and returns or panics.\<close>

type_synonym ('e, 'a, 'j, 't, 'w) RequestHandler =
  "('e, 'a, 'j, 't, 'w) RequestContext \<Rightarrow> ('e, 'a, 't, 'w) hstate \<Rightarrow>
     (('e, 'a) panic_value + 'a any \<times> 'e option) \<times> ('e, 'a, 't, 'w) hstate"

type_synonym ('e, 'a, 'j, 't, 'w) NotificationHandler =
  "('e, 'a, 'j, 't, 'w) RequestContext \<Rightarrow> ('e, 'a, 't, 'w) hstate \<Rightarrow>
     ('e, 'a) panic_value option \<times> ('e, 'a, 't, 'w) hstate"

record ('e, 'a, 'j, 't, 'w) Router =
  Handlers :: "string \<rightharpoonup> ('e, 'a, 'j, 't, 'w) RequestHandler"
  NotificationHandlers :: "string \<rightharpoonup> ('e, 'a, 'j, 't, 'w) NotificationHandler"
  router_CancelFuncs :: ptr
  dbPool :: ptr
  getClient :: "string \<Rightarrow> ptr"
  router_ButlerVersion :: string
  router_ButlerVersionString :: string

text \<open>\<^verbatim>\<open>models.Profile\<close>: the field router.go reads.\<close>

record Profile =
  APIKey :: string

subsection \<open>Code outside router.go\<close>

text \<open>
  The functions router.go calls and does not define, as parameters: those of the package
  itself (\<^verbatim>\<open>AsButlerdError\<close>, \<^verbatim>\<open>RpcError\<close>, the two \<^verbatim>\<open>Code\<close> constants and their
  \<^verbatim>\<open>Error()\<close>, \<^verbatim>\<open>NewStateConsumer\<close>, \<^verbatim>\<open>JsonRPC2Conn\<close>, \<^verbatim>\<open>models.ProfileByID\<close>) and the
  libraries (pkg/errors, neterr, werrors, fmt, encoding/json, jsonrpc2, sqlite, progress).
  \<open>AsButlerdError\<close> is \<open>Some ee\<close> when the Go function returns \<^verbatim>\<open>(ee, true)\<close>;
  \<open>json_Marshal\<close> is \<open>None\<close> when \<^verbatim>\<open>json.Marshal\<close> returns an error; \<open>errors_Errorf\<close>
  and \<open>errors_New\<close> take the formatted message. Each is taken to return.
\<close>

record ('e, 'a, 'j, 't, 'w) externals =
  AsButlerdError :: "'e \<Rightarrow> 'a butlerd_Error option"
  RpcError :: "int64 \<Rightarrow> string \<Rightarrow> 'e"
  CodeNetworkDisconnected :: int64
  CodeOperationCancelled :: int64
  Code_Error :: "int64 \<Rightarrow> string"
  NewStateConsumer :: "ptr \<Rightarrow> ('e, 'a, 'w) Conn_iface \<Rightarrow> 'e + ('e, 'a, 't, 'w) Consumer"
  JsonRPC2Conn :: "ptr \<Rightarrow> ('e, 'a, 'w) Conn_iface"
  ProfileByID :: "ptr \<Rightarrow> int64 \<Rightarrow> 'w \<Rightarrow> Profile option \<times> 'w"
  neterr_IsNetworkError :: "'e \<Rightarrow> bool"
  werrors_ErrCancelled :: 'e
  errors_Cause :: "'e \<Rightarrow> 'e"
  errors_WithStack :: "'e \<Rightarrow> 'e"
  errors_Errorf :: "string \<Rightarrow> 'e"
  errors_New :: "string \<Rightarrow> 'e"
  Error :: "'e \<Rightarrow> string"
  Sprintf_plus_v :: "'e \<Rightarrow> string"
  Sprintf_v :: "'a any \<Rightarrow> string"
  json_Marshal :: "(string \<rightharpoonup> 'a any) \<Rightarrow> 'j option"
  Reply_result :: "ptr \<Rightarrow> jsonrpc2_ID \<Rightarrow> 'a any \<Rightarrow> 'w \<Rightarrow> 'e option"
  Pool_Get :: "ptr \<Rightarrow> ptr \<Rightarrow> 'w \<Rightarrow> ptr \<times> 'w"
  Pool_Put :: "ptr \<Rightarrow> ptr \<Rightarrow> 'w \<Rightarrow> 'w"
  NewTracker :: 't
  SetSilent :: "bool \<Rightarrow> 't \<Rightarrow> 't"
  SetProgress :: "float64 \<Rightarrow> 't \<Rightarrow> 't"
  SetTotalBytes :: "int64 \<Rightarrow> 't \<Rightarrow> 't"
  tracker_Start :: "'t \<Rightarrow> 't"
  tracker_Finish :: "'t \<Rightarrow> 't"
  tracker_Pause :: "'t \<Rightarrow> 't"
  tracker_Resume :: "'t \<Rightarrow> 't"
  tracker_ETA :: "'t \<Rightarrow> int64"
  tracker_BPS :: "'t \<Rightarrow> float64"
  Seconds :: "int64 \<Rightarrow> float64"

text \<open>\<^verbatim>\<open>Consumer.Progress\<close>, \<^verbatim>\<open>Errorf\<close> and \<^verbatim>\<open>Warnf\<close> of wharf's \<^verbatim>\<open>state.Consumer\<close>: each
  calls the callback when it is set.\<close>

definition Consumer_Progress ::
  "('e, 'a, 't, 'w) Consumer \<Rightarrow> float64 \<Rightarrow> ('e, 'a, 't, 'w) hstate \<Rightarrow> ('e, 'a, 't, 'w) hstate" where
  "Consumer_Progress c alpha s = (case OnProgress c of None \<Rightarrow> s | Some f \<Rightarrow> f alpha s)"

definition Consumer_Errorf :: "('e, 'a, 't, 'w) Consumer \<Rightarrow> string \<Rightarrow> 'w \<Rightarrow> 'w" where
  "Consumer_Errorf c msg w = (case OnMessage c of None \<Rightarrow> w | Some f \<Rightarrow> f ''error'' msg w)"

definition Consumer_Warnf :: "('e, 'a, 't, 'w) Consumer \<Rightarrow> string \<Rightarrow> 'w \<Rightarrow> 'w" where
  "Consumer_Warnf c msg w = (case OnMessage c of None \<Rightarrow> w | Some f \<Rightarrow> f ''warning'' msg w)"

subsection \<open>CancelFuncs (lines 312-332)\<close>

text \<open>A \<^verbatim>\<open>context.CancelFunc\<close> is a function on the environment: calling it is applying it.\<close>

record 'w CancelFuncs =
  Funcs :: "string \<rightharpoonup> ('w \<Rightarrow> 'w)"

definition CancelFuncs_Add :: "'w CancelFuncs \<Rightarrow> string \<Rightarrow> ('w \<Rightarrow> 'w) \<Rightarrow> 'w CancelFuncs" where
  "CancelFuncs_Add cf ident f = cf\<lparr>Funcs := (Funcs cf)(ident \<mapsto> f)\<rparr>"

definition CancelFuncs_Remove :: "'w CancelFuncs \<Rightarrow> string \<Rightarrow> 'w CancelFuncs" where
  "CancelFuncs_Remove cf ident = cf\<lparr>Funcs := (Funcs cf)(ident := None)\<rparr>"

text \<open>\<^verbatim>\<open>Call\<close> returns its boolean, the registry and the environment after it.\<close>

definition CancelFuncs_Call :: "'w CancelFuncs \<Rightarrow> string \<Rightarrow> 'w \<Rightarrow> bool \<times> 'w CancelFuncs \<times> 'w" where
  "CancelFuncs_Call cf ident w =
     (case Funcs cf ident of
        Some f \<Rightarrow> (True, cf\<lparr>Funcs := (Funcs cf)(ident := None)\<rparr>, f w)
      | None \<Rightarrow> (False, cf, w))"

subsection \<open>Registration (lines 37-61)\<close>

text \<open>\<^verbatim>\<open>NewRouter\<close> allocates the registry; its address is the third argument here.
  \<^verbatim>\<open>Register\<close> and \<^verbatim>\<open>RegisterNotification\<close> panic with a string.\<close>

definition NewRouter :: "ptr \<Rightarrow> (string \<Rightarrow> ptr) \<Rightarrow> ptr \<Rightarrow> ('e, 'a, 'j, 't, 'w) Router" where
  "NewRouter pool client cancelFuncs =
     \<lparr>Handlers = Map.empty, NotificationHandlers = Map.empty, router_CancelFuncs = cancelFuncs,
      dbPool = pool, getClient = client, router_ButlerVersion = [],
      router_ButlerVersionString = []\<rparr>"

definition twice_message :: "string \<Rightarrow> string" where
  "twice_message method = ''Can'' @ [CHR 0x27] @ ''t register handler twice for '' @ method"

definition Register ::
  "('e, 'a, 'j, 't, 'w) Router \<Rightarrow> string \<Rightarrow> ('e, 'a, 'j, 't, 'w) RequestHandler \<Rightarrow>
     ('e, 'a) panic_value + ('e, 'a, 'j, 't, 'w) Router" where
  "Register r method rh =
     (case Handlers r method of
        Some _ \<Rightarrow> Inl (PanicOther (StringValue (twice_message method)))
      | None \<Rightarrow> Inr (r\<lparr>Handlers := (Handlers r)(method \<mapsto> rh)\<rparr>))"

definition RegisterNotification ::
  "('e, 'a, 'j, 't, 'w) Router \<Rightarrow> string \<Rightarrow> ('e, 'a, 'j, 't, 'w) NotificationHandler \<Rightarrow>
     ('e, 'a) panic_value + ('e, 'a, 'j, 't, 'w) Router" where
  "RegisterNotification r method nh =
     (case NotificationHandlers r method of
        Some _ \<Rightarrow> Inl (PanicOther (StringValue (twice_message method)))
      | None \<Rightarrow> Inr (r\<lparr>NotificationHandlers := (NotificationHandlers r)(method \<mapsto> nh)\<rparr>))"

subsection \<open>Notifications and their interception (lines 223-244)\<close>

definition InterceptNotification ::
  "('e, 'a, 't, 'w) rc_private \<Rightarrow> string \<Rightarrow> ('e, 'a, 'w) NotificationInterceptor \<Rightarrow>
     ('e, 'a, 't, 'w) rc_private" where
  "InterceptNotification p method interceptor =
     (let table = (case notificationInterceptors p of None \<Rightarrow> Map.empty | Some t \<Rightarrow> t)
      in p\<lparr>notificationInterceptors := Some (table(method \<mapsto> interceptor))\<rparr>)"

definition StopInterceptingNotification ::
  "('e, 'a, 't, 'w) rc_private \<Rightarrow> string \<Rightarrow> ('e, 'a, 't, 'w) rc_private" where
  "StopInterceptingNotification p method =
     (case notificationInterceptors p of
        None \<Rightarrow> p
      | Some t \<Rightarrow> p\<lparr>notificationInterceptors := Some (t(method := None))\<rparr>)"

definition Notify ::
  "('e, 'a, 'j, 't, 'w) RequestContext \<Rightarrow> ('e, 'a, 't, 'w) rc_private \<Rightarrow> string \<Rightarrow> 'a any \<Rightarrow>
     'w \<Rightarrow> 'e option \<times> 'w" where
  "Notify rc p method params w =
     (case notificationInterceptors p of
        Some t \<Rightarrow>
          (case t method of
             Some ni \<Rightarrow> ni method params w
           | None \<Rightarrow> Conn_Notify (Conn rc) (Ctx rc) method params w)
      | None \<Rightarrow> Conn_Notify (Conn rc) (Ctx rc) method params w)"

subsection \<open>Progress tracking (lines 270-298)\<close>

definition StartProgressWithInitialAndTotal ::
  "('e, 'a, 'j, 't, 'w) externals \<Rightarrow> ('e, 'a, 'j, 't, 'w) RequestContext \<Rightarrow> float64 \<Rightarrow> int64 \<Rightarrow>
     ('e, 'a, 't, 'w) hstate \<Rightarrow> ('e, 'a, 't, 'w) hstate" where
  "StartProgressWithInitialAndTotal X rc initialProgress totalBytes s =
     (case s of (p, w) \<Rightarrow>
        (case tracker p of
           Some _ \<Rightarrow>
             (p, Consumer_Warnf (Consumer rc)
                   ''Asked to start progress but already tracking progress!'' w)
         | None \<Rightarrow>
             (p\<lparr>tracker := Some (tracker_Start X (SetTotalBytes X totalBytes
                   (SetProgress X initialProgress (SetSilent X True (NewTracker X)))))\<rparr>, w)))"

definition StartProgressWithTotalBytes ::
  "('e, 'a, 'j, 't, 'w) externals \<Rightarrow> ('e, 'a, 'j, 't, 'w) RequestContext \<Rightarrow> int64 \<Rightarrow>
     ('e, 'a, 't, 'w) hstate \<Rightarrow> ('e, 'a, 't, 'w) hstate" where
  "StartProgressWithTotalBytes X rc totalBytes = StartProgressWithInitialAndTotal X rc 0 totalBytes"

definition StartProgress ::
  "('e, 'a, 'j, 't, 'w) externals \<Rightarrow> ('e, 'a, 'j, 't, 'w) RequestContext \<Rightarrow>
     ('e, 'a, 't, 'w) hstate \<Rightarrow> ('e, 'a, 't, 'w) hstate" where
  "StartProgress X rc = StartProgressWithTotalBytes X rc 0"

text \<open>\<^verbatim>\<open>EndProgress\<close> finishes the tracker and drops it: the finished tracker is not
  reachable afterwards.\<close>

definition EndProgress ::
  "('e, 'a, 'j, 't, 'w) externals \<Rightarrow> ('e, 'a, 'j, 't, 'w) RequestContext \<Rightarrow>
     ('e, 'a, 't, 'w) hstate \<Rightarrow> ('e, 'a, 't, 'w) hstate" where
  "EndProgress X rc s =
     (case s of (p, w) \<Rightarrow>
        (case tracker p of
           Some t \<Rightarrow> (p\<lparr>tracker := None\<rparr>, w)
         | None \<Rightarrow>
             (p, Consumer_Warnf (Consumer rc)
                   ''Asked to stop progress but wasn't tracking progress!'' w)))"

subsection \<open>ProfileClient (lines 250-268)\<close>

text \<open>\<^verbatim>\<open>%d\<close> of an \<^verbatim>\<open>int64\<close>.\<close>

fun decimal :: "nat \<Rightarrow> string" where
  "decimal n =
     (if n < 10 then [''0123456789'' ! n]
      else decimal (n div 10) @ [''0123456789'' ! (n mod 10)])"

definition Sprintf_d :: "int64 \<Rightarrow> string" where
  "Sprintf_d x = (if sint x < 0 then CHR ''-'' # decimal (nat (- sint x)) else decimal (nat (sint x)))"

text \<open>The deferred \<^verbatim>\<open>rc.DBPool.Put(conn)\<close> runs on every way out after \<^verbatim>\<open>Get\<close>, also
  when the body panics: it is applied to the environment whatever the body's result.
  \<^verbatim>\<open>Get\<close> is given the context, for its \<^verbatim>\<open>Done()\<close> channel.\<close>

definition ProfileClient ::
  "('e, 'a, 'j, 't, 'w) externals \<Rightarrow> ('e, 'a, 'j, 't, 'w) RequestContext \<Rightarrow> int64 \<Rightarrow> 'w \<Rightarrow>
     (('e, 'a) panic_value + Profile \<times> ptr) \<times> 'w" where
  "ProfileClient X rc profileID w =
     (if profileID = 0 then
        (Inl (PanicError (errors_New X ''profileId must be non-zero'')), w)
      else
        (let (conn, w1) = Pool_Get X (DBPool rc) (Ctx rc) w;
             (profile, w2) = ProfileByID X conn profileID w1;
             body =
               (case profile of
                  None \<Rightarrow>
                    Inl (PanicError (errors_Errorf X
                      (''Could not find profile '' @ Sprintf_d profileID)))
                | Some pr \<Rightarrow>
                    if APIKey pr = [] then
                      Inl (PanicError (errors_Errorf X
                        (''Profile '' @ Sprintf_d profileID @ '' lacks API key'')))
                    else Inr (pr, Client rc (APIKey pr)))
         in (body, Pool_Put X (DBPool rc) conn w2)))"

subsection \<open>Dispatch (lines 63-197)\<close>

text \<open>The four callbacks set on \<^verbatim>\<open>rc.Consumer\<close> before a request handler runs
  (lines 106-133). The closures hold \<^verbatim>\<open>rc\<close>; they read its private fields when called.\<close>

definition OnProgress_func ::
  "('e, 'a, 'j, 't, 'w) externals \<Rightarrow> ('e, 'a, 'j, 't, 'w) RequestContext \<Rightarrow> float64 \<Rightarrow>
     ('e, 'a, 't, 'w) hstate \<Rightarrow> ('e, 'a, 't, 'w) hstate" where
  "OnProgress_func X rc alpha s =
     (case s of (p, w) \<Rightarrow>
        (case tracker p of
           None \<Rightarrow> (p, w)
         | Some t \<Rightarrow>
             (let t' = SetProgress X alpha t;
                  notif = ProgressNotification alpha (Seconds X (tracker_ETA X t')) (tracker_BPS X t')
              in (p\<lparr>tracker := Some t'\<rparr>, snd (Notify rc p ''Progress'' notif w)))))"

definition OnPauseProgress_func ::
  "('e, 'a, 'j, 't, 'w) externals \<Rightarrow> ('e, 'a, 't, 'w) hstate \<Rightarrow> ('e, 'a, 't, 'w) hstate" where
  "OnPauseProgress_func X s =
     (case s of (p, w) \<Rightarrow>
        (case tracker p of
           Some t \<Rightarrow> (p\<lparr>tracker := Some (tracker_Pause X t)\<rparr>, w)
         | None \<Rightarrow> (p, w)))"

definition OnResumeProgress_func ::
  "('e, 'a, 'j, 't, 'w) externals \<Rightarrow> ('e, 'a, 't, 'w) hstate \<Rightarrow> ('e, 'a, 't, 'w) hstate" where
  "OnResumeProgress_func X s =
     (case s of (p, w) \<Rightarrow>
        (case tracker p of
           Some t \<Rightarrow> (p\<lparr>tracker := Some (tracker_Resume X t)\<rparr>, w)
         | None \<Rightarrow> (p, w)))"

definition with_progress ::
  "('e, 'a, 'j, 't, 'w) externals \<Rightarrow> ('e, 'a, 'j, 't, 'w) RequestContext \<Rightarrow>
     ('e, 'a, 'j, 't, 'w) RequestContext" where
  "with_progress X rc =
     rc\<lparr>Consumer := (Consumer rc)
          \<lparr>OnProgress := Some (OnProgress_func X rc),
           OnProgressLabel := Some (\<lambda>label s. s),
           OnPauseProgress := Some (OnPauseProgress_func X),
           OnResumeProgress := Some (OnResumeProgress_func X)\<rparr>\<rparr>"

text \<open>The deferred function (lines 77-85) on the value \<^verbatim>\<open>recover()\<close> returned after a
  panic: what it leaves in \<^verbatim>\<open>err\<close>. A nil value fails the test \<^verbatim>\<open>r != nil\<close> of line 78,
  and \<^verbatim>\<open>err\<close> stays nil.\<close>

definition recovered ::
  "('e, 'a, 'j, 't, 'w) externals \<Rightarrow> ('e, 'a) panic_value \<Rightarrow> 'e option" where
  "recovered X r =
     (if r \<noteq> PanicOther NilValue then
        (case r of
           PanicError rErr \<Rightarrow> Some (errors_WithStack X rErr)
         | PanicOther v \<Rightarrow> Some (errors_Errorf X (''panic: '' @ Sprintf_v X v)))
      else None)"

definition not_found_message :: "string \<Rightarrow> string" where
  "not_found_message method = ''Method '' @ [CHR 0x27] @ method @ [CHR 0x27] @ '' not found''"

text \<open>A fresh context has a nil interception table and no tracker.\<close>

definition fresh :: "('e, 'a, 't, 'w) rc_private" where
  "fresh = \<lparr>notificationInterceptors = None, tracker = None\<rparr>"

text \<open>The function literal of lines 76-144: it returns \<^verbatim>\<open>res\<close> and \<^verbatim>\<open>err\<close> as they are
  when it is left, and the environment. \<^verbatim>\<open>res\<close> is assigned only when the handler
  returns; after a panic \<^verbatim>\<open>err\<close> is what the deferred function leaves.\<close>

definition invoke ::
  "('e, 'a, 'j, 't, 'w) externals \<Rightarrow> ('e, 'a, 'j, 't, 'w) Router \<Rightarrow>
     ('e, 'a, 'j, 't, 'w) RequestContext \<Rightarrow> 'j Request \<Rightarrow> 'w \<Rightarrow> ('a any \<times> 'e option) \<times> 'w" where
  "invoke X r rc req w =
     (if Notif req then
        (case NotificationHandlers r (Method req) of
           Some nh \<Rightarrow>
             (case nh rc (fresh, w) of
                (None, (p, w')) \<Rightarrow> ((NilValue, None), w')
              | (Some pv, (p, w')) \<Rightarrow> ((NilValue, recovered X pv), w'))
         | None \<Rightarrow> ((NilValue, None), w))
      else
        (case Handlers r (Method req) of
           Some h \<Rightarrow>
             (case h (with_progress X rc) (fresh, w) of
                (Inr (res, err), (p, w')) \<Rightarrow> ((res, err), w')
              | (Inl pv, (p, w')) \<Rightarrow> ((NilValue, recovered X pv), w'))
         | None \<Rightarrow>
             ((NilValue, Some (RpcError X CodeMethodNotFound (not_found_message (Method req)))), w)))"

text \<open>The classification of lines 158-177: code, message and data.\<close>

definition classify ::
  "('e, 'a, 'j, 't, 'w) externals \<Rightarrow> 'e \<Rightarrow> int64 \<times> string \<times> (string \<rightharpoonup> 'a any) option" where
  "classify X err =
     (case AsButlerdError X err of
        Some ee \<Rightarrow> (RpcErrorCode ee, RpcErrorMessage ee, RpcErrorData ee)
      | None \<Rightarrow>
          if neterr_IsNetworkError X err then
            (CodeNetworkDisconnected X, Code_Error X (CodeNetworkDisconnected X), None)
          else if errors_Cause X err = werrors_ErrCancelled X then
            (CodeOperationCancelled X, Code_Error X (CodeOperationCancelled X), None)
          else (CodeInternalError, Error X err, None))"

text \<open>Lines 180-184: the data mapping that is encoded.\<close>

definition reply_data ::
  "('e, 'a, 'j, 't, 'w) externals \<Rightarrow> string \<Rightarrow> 'e \<Rightarrow> (string \<rightharpoonup> 'a any) option \<Rightarrow>
     (string \<rightharpoonup> 'a any)" where
  "reply_data X version err data =
     (case data of None \<Rightarrow> Map.empty | Some d \<Rightarrow> d)
       (''stack'' \<mapsto> StringValue (Sprintf_plus_v X err),
        ''butlerVersion'' \<mapsto> StringValue version)"

text \<open>Lines 158-196: the \<^verbatim>\<open>jsonrpc2.Error\<close> sent for \<^verbatim>\<open>err\<close>.\<close>

definition error_object ::
  "('e, 'a, 'j, 't, 'w) externals \<Rightarrow> string \<Rightarrow> 'e \<Rightarrow> 'j jsonrpc2_Error" where
  "error_object X version err =
     (case classify X err of (code, message, data) \<Rightarrow>
        \<lparr>Code = code, Message = message,
         Data = json_Marshal X (reply_data X version err data)\<rparr>)"

text \<open>The context built for the call (lines 87-98).\<close>

definition new_context ::
  "('e, 'a, 'j, 't, 'w) Router \<Rightarrow> ptr \<Rightarrow> ('e, 'a, 'w) Conn_iface \<Rightarrow> ('e, 'a, 't, 'w) Consumer \<Rightarrow>
     'j Request \<Rightarrow> ('e, 'a, 'j, 't, 'w) RequestContext" where
  "new_context r ctx conn consumer req =
     \<lparr>Ctx = ctx, Consumer = consumer, Params = req_Params req, Conn = conn,
      CancelFuncs = router_CancelFuncs r, DBPool = dbPool r, Client = getClient r,
      ButlerVersion = router_ButlerVersion r,
      ButlerVersionString = router_ButlerVersionString r\<rparr>"

definition Dispatch ::
  "('e, 'a, 'j, 't, 'w) externals \<Rightarrow> ('e, 'a, 'j, 't, 'w) Router \<Rightarrow> ptr \<Rightarrow> ptr \<Rightarrow> 'j Request \<Rightarrow>
     ('a, 'j, 'w) world \<Rightarrow> ('a, 'j, 'w) world" where
  "Dispatch X r ctx origConn req W =
     (let conn = JsonRPC2Conn X origConn in
      case NewStateConsumer X ctx conn of
        Inl cErr \<Rightarrow> W
      | Inr consumer \<Rightarrow>
          (case invoke X r (new_context r ctx conn consumer req) req (env W) of
             ((res, err), w') \<Rightarrow>
               if Notif req then W\<lparr>env := w'\<rparr>
               else
                 (case err of
                    None \<Rightarrow>
                      (case Reply_result X origConn (ID req) res w' of
                         None \<Rightarrow> \<lparr>replies = replies W @ [Reply (ID req) res], env = w'\<rparr>
                       | Some e \<Rightarrow>
                           \<lparr>replies = replies W @ [Reply (ID req) res],
                            env = Consumer_Errorf consumer
                                    (''Error while replying: '' @ Error X e) w'\<rparr>)
                  | Some e \<Rightarrow>
                      \<lparr>replies = replies W @
                         [ReplyWithError (ID req)
                            (error_object X (router_ButlerVersionString r) e)],
                       env = w'\<rparr>)))"

section \<open>An instance of the outside code\<close>

text \<open>
  One concrete choice of the parameters, on which the model runs: errors as pkg/errors
  builds them, an encoder that keeps the mapping it is given, a pool that counts the
  connections in use, a connection that records each notification, and a consumer that
  sends each message as a \<^verbatim>\<open>Log\<close> notification.
\<close>

datatype ex_error =
    Fundamental string
  | Stack ex_error
  | Rpc int64 string "(string \<times> nat any) list option"
  | NetErr
  | Cancelled

record ex_tracker =
  fraction :: float64
  total :: int64
  silent :: bool
  running :: bool

record ex_env =
  notified :: "(string \<times> nat any) list"
  in_use :: nat
  cancelled :: "string list"
  captured :: "(string \<times> nat any) list"

fun ex_Cause :: "ex_error \<Rightarrow> ex_error" where
  "ex_Cause (Stack e) = ex_Cause e"
| "ex_Cause e = e"

fun ex_Error :: "ex_error \<Rightarrow> string" where
  "ex_Error (Fundamental m) = m"
| "ex_Error (Stack e) = ex_Error e"
| "ex_Error (Rpc c m d) = m"
| "ex_Error NetErr = ''connection reset by peer''"
| "ex_Error Cancelled = ''operation cancelled''"

fun ex_plus_v :: "ex_error \<Rightarrow> string" where
  "ex_plus_v (Fundamental m) = m @ '' (at main.go:1)''"
| "ex_plus_v (Stack e) = ex_plus_v e @ '' (at router.go:80)''"
| "ex_plus_v e = ex_Error e"

definition ex_AsButlerdError :: "ex_error \<Rightarrow> nat butlerd_Error option" where
  "ex_AsButlerdError e =
     (case ex_Cause e of
        Rpc c m d \<Rightarrow>
          Some \<lparr>RpcErrorCode = c, RpcErrorMessage = m, RpcErrorData = map_option map_of d\<rparr>
      | _ \<Rightarrow> None)"

fun ex_v :: "nat any \<Rightarrow> string" where
  "ex_v (StringValue s) = s"
| "ex_v v = ''<value>''"

definition ex_Notify :: "ptr \<Rightarrow> string \<Rightarrow> nat any \<Rightarrow> ex_env \<Rightarrow> ex_error option \<times> ex_env" where
  "ex_Notify ctx method params w = (None, w\<lparr>notified := notified w @ [(method, params)]\<rparr>)"

definition ex_consumer :: "(ex_error, nat, ex_tracker, ex_env) Consumer" where
  "ex_consumer =
     \<lparr>OnProgress = None, OnProgressLabel = None, OnPauseProgress = None,
      OnResumeProgress = None,
      OnMessage = Some (\<lambda>lvl msg w.
        w\<lparr>notified := notified w @ [(''Log'', StringValue (lvl @ '': '' @ msg))]\<rparr>)\<rparr>"

text \<open>An interceptor that keeps the notification and reports a failure of its own.\<close>

definition ex_interceptor :: "(ex_error, nat, ex_env) NotificationInterceptor" where
  "ex_interceptor method params w =
     (Some (Fundamental ''kept''), w\<lparr>captured := captured w @ [(method, params)]\<rparr>)"

definition ex_ProfileByID :: "ptr \<Rightarrow> int64 \<Rightarrow> ex_env \<Rightarrow> Profile option \<times> ex_env" where
  "ex_ProfileByID conn profileID w =
     (if profileID = 1 then (Some \<lparr>APIKey = ''key-of-1''\<rparr>, w)
      else if profileID = 2 then (Some \<lparr>APIKey = []\<rparr>, w)
      else (None, w))"

definition ex ::
  "(ex_error, nat, string \<rightharpoonup> nat any, ex_tracker, ex_env) externals" where
  "ex =
     \<lparr>AsButlerdError = ex_AsButlerdError,
      RpcError = (\<lambda>c m. Rpc c m None),
      CodeNetworkDisconnected = 9000,
      CodeOperationCancelled = 499,
      Code_Error = (\<lambda>c. ''butlerd error '' @ Sprintf_d c),
      NewStateConsumer = (\<lambda>ctx conn.
        if ctx = 0 then Inl (Fundamental ''NewConsumer: missing Ctx'') else Inr ex_consumer),
      JsonRPC2Conn = (\<lambda>origConn. \<lparr>Conn_Notify = ex_Notify\<rparr>),
      ProfileByID = ex_ProfileByID,
      neterr_IsNetworkError = (\<lambda>e. ex_Cause e = NetErr),
      werrors_ErrCancelled = Cancelled,
      errors_Cause = ex_Cause,
      errors_WithStack = Stack,
      errors_Errorf = Fundamental,
      errors_New = Fundamental,
      Error = ex_Error,
      Sprintf_plus_v = ex_plus_v,
      Sprintf_v = ex_v,
      json_Marshal = Some,
      Reply_result = (\<lambda>origConn ident res w. None),
      Pool_Get = (\<lambda>pool done w. (in_use w, w\<lparr>in_use := Suc (in_use w)\<rparr>)),
      Pool_Put = (\<lambda>pool conn w. w\<lparr>in_use := in_use w - 1\<rparr>),
      NewTracker = \<lparr>fraction = 0, total = 0, silent = False, running = False\<rparr>,
      SetSilent = (\<lambda>b t. t\<lparr>silent := b\<rparr>),
      SetProgress = (\<lambda>alpha t. t\<lparr>fraction := alpha\<rparr>),
      SetTotalBytes = (\<lambda>n t. t\<lparr>total := n\<rparr>),
      tracker_Start = (\<lambda>t. t\<lparr>running := True\<rparr>),
      tracker_Finish = (\<lambda>t. t\<lparr>running := False\<rparr>),
      tracker_Pause = (\<lambda>t. t\<lparr>running := False\<rparr>),
      tracker_Resume = (\<lambda>t. t\<lparr>running := True\<rparr>),
      tracker_ETA = (\<lambda>t. 0),
      tracker_BPS = (\<lambda>t. 0),
      Seconds = (\<lambda>d. 0)\<rparr>"

text \<open>A router with three request handlers and two notification handlers.\<close>

type_synonym ex_handler =
  "(ex_error, nat, string \<rightharpoonup> nat any, ex_tracker, ex_env) RequestHandler"

type_synonym ex_notification_handler =
  "(ex_error, nat, string \<rightharpoonup> nat any, ex_tracker, ex_env) NotificationHandler"

definition version_handler :: ex_handler where
  "version_handler rc s = (Inr (StringValue (ButlerVersionString rc), None), s)"

definition failing_handler :: "ex_error \<Rightarrow> ex_handler" where
  "failing_handler e rc s = (Inr (NilValue, Some e), s)"

definition panicking_handler :: "(ex_error, nat) panic_value \<Rightarrow> ex_handler" where
  "panicking_handler pv rc s =
     (case s of (p, w) \<Rightarrow>
        (Inl pv, (p, snd (Notify rc p ''Log'' (StringValue ''about to panic'') w))))"

definition ping_handler :: ex_notification_handler where
  "ping_handler rc s =
     (case s of (p, w) \<Rightarrow> (None, (p, snd (Notify rc p ''Pong'' NilValue w))))"

definition crash_handler :: ex_notification_handler where
  "crash_handler rc s = (Some (PanicOther (StringValue ''boom'')), s)"

definition own_data :: "(string \<times> nat any) list" where
  "own_data = [(''stack'', StringValue ''mine''), (''gameId'', Opaque 7)]"

definition own_failure :: ex_error where
  "own_failure = Rpc 42 ''no such game'' (Some own_data)"

definition ex_router ::
  "(ex_error, nat, string \<rightharpoonup> nat any, ex_tracker, ex_env) Router" where
  "ex_router =
     \<lparr>Handlers =
        [''Version.Get'' \<mapsto> version_handler,
         ''Fail.Own'' \<mapsto> failing_handler own_failure,
         ''Fail.Net'' \<mapsto> failing_handler (Stack NetErr),
         ''Fail.Cancel'' \<mapsto> failing_handler (Stack Cancelled),
         ''Fail.Other'' \<mapsto> failing_handler (Fundamental ''disk full''),
         ''Panic.Error'' \<mapsto> panicking_handler (PanicError (Fundamental ''nil map'')),
         ''Panic.Value'' \<mapsto> panicking_handler (PanicOther (StringValue ''boom'')),
         ''Panic.Nil'' \<mapsto> panicking_handler (PanicOther NilValue)],
      NotificationHandlers = [''Ping'' \<mapsto> ping_handler, ''Crash'' \<mapsto> crash_handler],
      router_CancelFuncs = 1, dbPool = 2, getClient = length,
      router_ButlerVersion = ''15.21.0'',
      router_ButlerVersionString = ''15.21.0, built on Apr 1''\<rparr>"

definition ex_ID :: jsonrpc2_ID where
  "ex_ID = \<lparr>Num = 7, Str = [], IsString = False\<rparr>"

definition ex_request :: "string \<Rightarrow> (string \<rightharpoonup> nat any) Request" where
  "ex_request method = \<lparr>Method = method, req_Params = None, ID = ex_ID, Notif = False\<rparr>"

definition ex_notification :: "string \<Rightarrow> (string \<rightharpoonup> nat any) Request" where
  "ex_notification method = \<lparr>Method = method, req_Params = None, ID = ex_ID, Notif = True\<rparr>"

definition ex_env0 :: ex_env where
  "ex_env0 = \<lparr>notified = [], in_use = 0, cancelled = [], captured = []\<rparr>"

definition ex_world :: "(nat, string \<rightharpoonup> nat any, ex_env) world" where
  "ex_world = \<lparr>replies = [], env = ex_env0\<rparr>"

definition ex_rc ::
  "(ex_error, nat, string \<rightharpoonup> nat any, ex_tracker, ex_env) RequestContext" where
  "ex_rc =
     \<lparr>Ctx = 1, Consumer = ex_consumer, Params = None, Conn = \<lparr>Conn_Notify = ex_Notify\<rparr>,
      CancelFuncs = 1, DBPool = 2, Client = length, ButlerVersion = ''15.21.0'',
      ButlerVersionString = ''15.21.0, built on Apr 1''\<rparr>"

section \<open>Properties\<close>

subsection \<open>How Dispatch unfolds\<close>

lemma invoke_returned:
  "\<not> Notif req \<Longrightarrow> Handlers r (Method req) = Some h \<Longrightarrow>
   h (with_progress X rc) (fresh, w) = (Inr (res, err), (p, w')) \<Longrightarrow>
   invoke X r rc req w = ((res, err), w')"
  by (simp add: invoke_def)





lemma invoke_not_found:
  "\<not> Notif req \<Longrightarrow> Handlers r (Method req) = None \<Longrightarrow>
   invoke X r rc req w =
     ((NilValue, Some (RpcError X CodeMethodNotFound (not_found_message (Method req)))), w)"
  by (simp add: invoke_def)

lemma invoke_notification:
  "Notif req \<Longrightarrow> NotificationHandlers r (Method req) = Some nh \<Longrightarrow>
   nh rc (fresh, w) = (out, (p, w')) \<Longrightarrow>
   \<exists>err. invoke X r rc req w = ((NilValue, err), w')"
  by (cases out) (simp_all add: invoke_def)

lemma invoke_dropped:
  "Notif req \<Longrightarrow> NotificationHandlers r (Method req) = None \<Longrightarrow>
   invoke X r rc req w = ((NilValue, None), w)"
  by (simp add: invoke_def)

lemma Dispatch_error:
  "NewStateConsumer X ctx (JsonRPC2Conn X origConn) = Inr consumer \<Longrightarrow> \<not> Notif req \<Longrightarrow>
   invoke X r (new_context r ctx (JsonRPC2Conn X origConn) consumer req) req (env W)
     = ((res, Some err), w') \<Longrightarrow>
   Dispatch X r ctx origConn req W =
     \<lparr>replies = replies W @
        [ReplyWithError (ID req) (error_object X (router_ButlerVersionString r) err)],
      env = w'\<rparr>"
  by (simp add: Dispatch_def)



lemma Dispatch_notification:
  "Notif req \<Longrightarrow> replies (Dispatch X r ctx origConn req W) = replies W"
  by (simp add: Dispatch_def Let_def split: sum.split prod.split)

lemma error_object_Data:
  "Data (error_object X version err) =
     json_Marshal X (reply_data X version err (snd (snd (classify X err))))"
  by (simp add: error_object_def split: prod.split)

lemma reply_data_stack:
  "reply_data X version err d ''stack'' = Some (StringValue (Sprintf_plus_v X err))"
  by (simp add: reply_data_def)

lemma reply_data_butlerVersion:
  "reply_data X version err d ''butlerVersion'' = Some (StringValue version)"
  by (simp add: reply_data_def)

lemma reply_data_other:
  "k \<noteq> ''stack'' \<Longrightarrow> k \<noteq> ''butlerVersion'' \<Longrightarrow>
   reply_data X version err d k = (case d of None \<Rightarrow> None | Some m \<Rightarrow> m k)"
  by (simp add: reply_data_def split: option.split)

lemma classify_own:
  "AsButlerdError X err = Some ee \<Longrightarrow>
   classify X err = (RpcErrorCode ee, RpcErrorMessage ee, RpcErrorData ee)"
  by (simp add: classify_def)


subsection \<open>The instance at work\<close>

lemma ex_consumer_ok: "NewStateConsumer ex 1 (JsonRPC2Conn ex 5) = Inr ex_consumer"
  by (simp add: ex_def)

lemma ex_request_fields:
  "\<not> Notif (ex_request method)" "Method (ex_request method) = method"
  "ID (ex_request method) = ex_ID"
  by (simp_all add: ex_request_def)

lemma ex_notification_fields:
  "Notif (ex_notification method)" "Method (ex_notification method) = method"
  by (simp_all add: ex_notification_def)

lemma ex_router_fields:
  "router_ButlerVersionString ex_router = ''15.21.0, built on Apr 1''"
  "Handlers ex_router ''Panic.Error'' = Some (panicking_handler (PanicError (Fundamental ''nil map'')))"
  "Handlers ex_router ''Panic.Value'' = Some (panicking_handler (PanicOther (StringValue ''boom'')))"
  "Handlers ex_router ''Panic.Nil'' = Some (panicking_handler (PanicOther NilValue))"
  "Handlers ex_router ''Fail.Own'' = Some (failing_handler own_failure)"
  "Handlers ex_router ''No.Such'' = None"
  "NotificationHandlers ex_router ''Ping'' = Some ping_handler"
  "NotificationHandlers ex_router ''Crash'' = Some crash_handler"
  "NotificationHandlers ex_router ''No.Such'' = None"
  by (simp_all add: ex_router_def)

lemma ex_world_fields: "replies ex_world = []" "env ex_world = ex_env0"
  by (simp_all add: ex_world_def)



lemma failing_handler_run:
  "failing_handler e rc (fresh, env ex_world) = (Inr (NilValue, Some e), (fresh, ex_env0))"
  by (simp add: failing_handler_def ex_world_def)

lemma ex_own_capability:
  "AsButlerdError ex own_failure =
     Some \<lparr>RpcErrorCode = 42, RpcErrorMessage = ''no such game'',
           RpcErrorData = Some (map_of own_data)\<rparr>"
  by (simp add: ex_def ex_AsButlerdError_def own_failure_def)

subsection \<open>The error classifier\<close>

text \<open>
  C1. When the handler of a request returns the failure \<open>err\<close>, \<open>Dispatch\<close> sends one
  error reply, the \<open>error_object\<close> of \<open>err\<close>, and changes nothing else. Its code and
  message follow the precedence: (1) if \<open>AsButlerdError\<close> gives the capability \<open>ee\<close>, they
  are \<open>ee\<close>'s own code and message, and the encoded data is \<open>ee\<close>'s own data with the two
  entries of \<open>reply_data\<close>; (2) otherwise, for a network error, the code
  \<open>CodeNetworkDisconnected\<close> and its message; (3) otherwise, when the cause is
  \<open>ErrCancelled\<close>, the code \<open>CodeOperationCancelled\<close> and its message; (4) otherwise the
  internal-error code, with \<open>err.Error()\<close> as the message.
\<close>

theorem Dispatch_classifies_failure:
  assumes consumer: "NewStateConsumer X ctx (JsonRPC2Conn X origConn) = Inr consumer"
    and request: "\<not> Notif req"
    and handler: "Handlers r (Method req) = Some h"
    and failed:
      "h (with_progress X (new_context r ctx (JsonRPC2Conn X origConn) consumer req))
         (fresh, env W) = (Inr (res, Some err), (p, w'))"
  shows
    "Dispatch X r ctx origConn req W =
       \<lparr>replies = replies W @
          [ReplyWithError (ID req) (error_object X (router_ButlerVersionString r) err)],
        env = w'\<rparr> \<and>
     (\<forall>ee. AsButlerdError X err = Some ee \<longrightarrow>
        error_object X (router_ButlerVersionString r) err =
          \<lparr>Code = RpcErrorCode ee, Message = RpcErrorMessage ee,
           Data = json_Marshal X
             (reply_data X (router_ButlerVersionString r) err (RpcErrorData ee))\<rparr>) \<and>
     (AsButlerdError X err = None \<and> neterr_IsNetworkError X err \<longrightarrow>
        Code (error_object X (router_ButlerVersionString r) err) = CodeNetworkDisconnected X \<and>
        Message (error_object X (router_ButlerVersionString r) err) =
          Code_Error X (CodeNetworkDisconnected X)) \<and>
     (AsButlerdError X err = None \<and> \<not> neterr_IsNetworkError X err \<and>
      errors_Cause X err = werrors_ErrCancelled X \<longrightarrow>
        Code (error_object X (router_ButlerVersionString r) err) = CodeOperationCancelled X \<and>
        Message (error_object X (router_ButlerVersionString r) err) =
          Code_Error X (CodeOperationCancelled X)) \<and>
     (AsButlerdError X err = None \<and> \<not> neterr_IsNetworkError X err \<and>
      errors_Cause X err \<noteq> werrors_ErrCancelled X \<longrightarrow>
        Code (error_object X (router_ButlerVersionString r) err) = CodeInternalError \<and>
        Message (error_object X (router_ButlerVersionString r) err) = Error X err)"
proof -
  have "invoke X r (new_context r ctx (JsonRPC2Conn X origConn) consumer req) req (env W)
          = ((res, Some err), w')"
    using request handler failed by (rule invoke_returned)
  then have "Dispatch X r ctx origConn req W =
       \<lparr>replies = replies W @
          [ReplyWithError (ID req) (error_object X (router_ButlerVersionString r) err)],
        env = w'\<rparr>"
    using consumer request by (simp add: Dispatch_error)
  moreover have "\<forall>ee. AsButlerdError X err = Some ee \<longrightarrow>
        error_object X (router_ButlerVersionString r) err =
          \<lparr>Code = RpcErrorCode ee, Message = RpcErrorMessage ee,
           Data = json_Marshal X
             (reply_data X (router_ButlerVersionString r) err (RpcErrorData ee))\<rparr>"
    by (simp add: error_object_def classify_def)
  moreover have "AsButlerdError X err = None \<and> neterr_IsNetworkError X err \<longrightarrow>
        Code (error_object X (router_ButlerVersionString r) err) = CodeNetworkDisconnected X \<and>
        Message (error_object X (router_ButlerVersionString r) err) =
          Code_Error X (CodeNetworkDisconnected X)"
    by (simp add: error_object_def classify_def)
  moreover have "AsButlerdError X err = None \<and> \<not> neterr_IsNetworkError X err \<and>
      errors_Cause X err = werrors_ErrCancelled X \<longrightarrow>
        Code (error_object X (router_ButlerVersionString r) err) = CodeOperationCancelled X \<and>
        Message (error_object X (router_ButlerVersionString r) err) =
          Code_Error X (CodeOperationCancelled X)"
    by (simp add: error_object_def classify_def)
  moreover have "AsButlerdError X err = None \<and> \<not> neterr_IsNetworkError X err \<and>
      errors_Cause X err \<noteq> werrors_ErrCancelled X \<longrightarrow>
        Code (error_object X (router_ButlerVersionString r) err) = CodeInternalError \<and>
        Message (error_object X (router_ButlerVersionString r) err) = Error X err"
    by (simp add: error_object_def classify_def)
  ultimately show ?thesis by blast
qed

theorem Dispatch_classifies_failure_witness:
  "Dispatch ex ex_router 1 5 (ex_request ''Fail.Own'') ex_world =
     \<lparr>replies = [ReplyWithError ex_ID
        \<lparr>Code = 42, Message = ''no such game'',
         Data = Some [''stack'' \<mapsto> StringValue ''no such game'', ''gameId'' \<mapsto> Opaque 7,
                      ''butlerVersion'' \<mapsto> StringValue ''15.21.0, built on Apr 1'']\<rparr>],
      env = ex_env0\<rparr> \<and>
   Dispatch ex ex_router 1 5 (ex_request ''Fail.Net'') ex_world =
     \<lparr>replies = [ReplyWithError ex_ID
        (error_object ex ''15.21.0, built on Apr 1'' (Stack NetErr))], env = ex_env0\<rparr> \<and>
   Code (error_object ex ''15.21.0, built on Apr 1'' (Stack NetErr)) = 9000 \<and>
   Message (error_object ex ''15.21.0, built on Apr 1'' (Stack NetErr)) = ''butlerd error 9000'' \<and>
   Dispatch ex ex_router 1 5 (ex_request ''Fail.Cancel'') ex_world =
     \<lparr>replies = [ReplyWithError ex_ID
        (error_object ex ''15.21.0, built on Apr 1'' (Stack Cancelled))], env = ex_env0\<rparr> \<and>
   Code (error_object ex ''15.21.0, built on Apr 1'' (Stack Cancelled)) = 499 \<and>
   Message (error_object ex ''15.21.0, built on Apr 1'' (Stack Cancelled)) = ''butlerd error 499'' \<and>
   Dispatch ex ex_router 1 5 (ex_request ''Fail.Other'') ex_world =
     \<lparr>replies = [ReplyWithError ex_ID
        (error_object ex ''15.21.0, built on Apr 1'' (Fundamental ''disk full''))],
      env = ex_env0\<rparr> \<and>
   Code (error_object ex ''15.21.0, built on Apr 1'' (Fundamental ''disk full'')) = - 32603 \<and>
   Message (error_object ex ''15.21.0, built on Apr 1'' (Fundamental ''disk full'')) = ''disk full''"
proof -
  have c: "NewStateConsumer ex 1 (JsonRPC2Conn ex 5) = Inr ex_consumer"
    by (simp add: ex_def)
  have n: "\<not> Notif (ex_request name)" for name
    by (simp add: ex_request_def)
  have h: "Handlers ex_router (Method (ex_request ''Fail.Own'')) = Some (failing_handler own_failure)"
      "Handlers ex_router (Method (ex_request ''Fail.Net'')) = Some (failing_handler (Stack NetErr))"
      "Handlers ex_router (Method (ex_request ''Fail.Cancel'')) = Some (failing_handler (Stack Cancelled))"
      "Handlers ex_router (Method (ex_request ''Fail.Other'')) =
         Some (failing_handler (Fundamental ''disk full''))"
    by (simp_all add: ex_router_def ex_request_def)
  have f: "failing_handler e rc (fresh, env ex_world) = (Inr (NilValue, Some e), (fresh, ex_env0))"
    for e rc
    by (simp add: failing_handler_def ex_world_def)
  note own = Dispatch_classifies_failure [OF c n h(1) f]
  note net = Dispatch_classifies_failure [OF c n h(2) f]
  note cancel = Dispatch_classifies_failure [OF c n h(3) f]
  note other = Dispatch_classifies_failure [OF c n h(4) f]
  have v: "router_ButlerVersionString ex_router = ''15.21.0, built on Apr 1''"
      "replies ex_world = []" "ID (ex_request name) = ex_ID" for name
    by (simp_all add: ex_router_def ex_world_def ex_request_def)
  have "Dispatch ex ex_router 1 5 (ex_request ''Fail.Own'') ex_world =
     \<lparr>replies = [ReplyWithError ex_ID
        \<lparr>Code = 42, Message = ''no such game'',
         Data = Some [''stack'' \<mapsto> StringValue ''no such game'', ''gameId'' \<mapsto> Opaque 7,
                      ''butlerVersion'' \<mapsto> StringValue ''15.21.0, built on Apr 1'']\<rparr>],
      env = ex_env0\<rparr>"
    using own by (simp add: v ex_def ex_AsButlerdError_def own_failure_def own_data_def reply_data_def
        fun_upd_twist)
  moreover have "Dispatch ex ex_router 1 5 (ex_request ''Fail.Net'') ex_world =
     \<lparr>replies = [ReplyWithError ex_ID
        (error_object ex ''15.21.0, built on Apr 1'' (Stack NetErr))], env = ex_env0\<rparr> \<and>
   Code (error_object ex ''15.21.0, built on Apr 1'' (Stack NetErr)) = 9000 \<and>
   Message (error_object ex ''15.21.0, built on Apr 1'' (Stack NetErr)) = ''butlerd error 9000''"
    using net by (simp add: v) (simp add: ex_def ex_AsButlerdError_def Sprintf_d_def)
  moreover have "Dispatch ex ex_router 1 5 (ex_request ''Fail.Cancel'') ex_world =
     \<lparr>replies = [ReplyWithError ex_ID
        (error_object ex ''15.21.0, built on Apr 1'' (Stack Cancelled))], env = ex_env0\<rparr> \<and>
   Code (error_object ex ''15.21.0, built on Apr 1'' (Stack Cancelled)) = 499 \<and>
   Message (error_object ex ''15.21.0, built on Apr 1'' (Stack Cancelled)) = ''butlerd error 499''"
    using cancel by (simp add: v) (simp add: ex_def ex_AsButlerdError_def Sprintf_d_def)
  moreover have "Dispatch ex ex_router 1 5 (ex_request ''Fail.Other'') ex_world =
     \<lparr>replies = [ReplyWithError ex_ID
        (error_object ex ''15.21.0, built on Apr 1'' (Fundamental ''disk full''))],
      env = ex_env0\<rparr> \<and>
   Code (error_object ex ''15.21.0, built on Apr 1'' (Fundamental ''disk full'')) = - 32603 \<and>
   Message (error_object ex ''15.21.0, built on Apr 1'' (Fundamental ''disk full'')) = ''disk full''"
    using other by (simp add: v) (simp add: ex_def ex_AsButlerdError_def CodeInternalError_def)
  ultimately show ?thesis by simp
qed

subsection \<open>Panic containment\<close>




subsection \<open>The data of an error reply\<close>

text \<open>
  C3, as amended. For every error reply of \<open>Dispatch\<close> (whatever left \<open>err\<close>: the handler's
  return, a recovered panic, or the missing method), the data of the reply is what
  \<open>json.Marshal\<close> gives for a mapping in which \<open>stack\<close> is the \<open>%+v\<close> rendering of \<open>err\<close>
  and \<open>butlerVersion\<close> is the router's version string; every other key is as the failure
  supplied it (absent when it supplied no mapping). The two entries are written over
  whatever the failure supplied under these two names.
\<close>

theorem Dispatch_error_data:
  fixes version supplied
  assumes consumer: "NewStateConsumer X ctx (JsonRPC2Conn X origConn) = Inr consumer"
    and request: "\<not> Notif req"
    and failed:
      "invoke X r (new_context r ctx (JsonRPC2Conn X origConn) consumer req) req (env W)
         = ((res, Some err), w')"
  defines "version \<equiv> router_ButlerVersionString r"
    and "supplied \<equiv> snd (snd (classify X err))"
  shows
    "Dispatch X r ctx origConn req W =
       \<lparr>replies = replies W @ [ReplyWithError (ID req) (error_object X version err)],
        env = w'\<rparr> \<and>
     Data (error_object X version err) = json_Marshal X (reply_data X version err supplied) \<and>
     reply_data X version err supplied ''stack'' = Some (StringValue (Sprintf_plus_v X err)) \<and>
     reply_data X version err supplied ''butlerVersion'' = Some (StringValue version) \<and>
     (\<forall>k. k \<noteq> ''stack'' \<and> k \<noteq> ''butlerVersion'' \<longrightarrow>
        reply_data X version err supplied k = (case supplied of None \<Rightarrow> None | Some m \<Rightarrow> m k)) \<and>
     (\<forall>ee. AsButlerdError X err = Some ee \<longrightarrow> supplied = RpcErrorData ee) \<and>
     (AsButlerdError X err = None \<longrightarrow> supplied = None)"
proof -
  have "Dispatch X r ctx origConn req W =
       \<lparr>replies = replies W @ [ReplyWithError (ID req) (error_object X version err)],
        env = w'\<rparr>"
    unfolding version_def using consumer request failed by (rule Dispatch_error)
  moreover have "\<forall>ee. AsButlerdError X err = Some ee \<longrightarrow> supplied = RpcErrorData ee"
    by (simp add: supplied_def classify_own)
  moreover have "AsButlerdError X err = None \<longrightarrow> supplied = None"
    by (simp add: supplied_def classify_def)
  ultimately show ?thesis
    by (simp add: error_object_Data supplied_def reply_data_stack reply_data_butlerVersion
        reply_data_other)
qed

theorem Dispatch_error_data_counterexample:
  "Handlers ex_router (Method (ex_request ''Fail.Own'')) = Some (failing_handler own_failure) \<and>
   AsButlerdError ex own_failure =
     Some \<lparr>RpcErrorCode = 42, RpcErrorMessage = ''no such game'',
           RpcErrorData = Some (map_of own_data)\<rparr> \<and>
   map_of own_data ''stack'' = Some (StringValue ''mine'') \<and>
   Dispatch ex ex_router 1 5 (ex_request ''Fail.Own'') ex_world =
     \<lparr>replies = [ReplyWithError ex_ID
        \<lparr>Code = 42, Message = ''no such game'',
         Data = Some (reply_data ex ''15.21.0, built on Apr 1'' own_failure
                        (Some (map_of own_data)))\<rparr>],
      env = ex_env0\<rparr> \<and>
   reply_data ex ''15.21.0, built on Apr 1'' own_failure (Some (map_of own_data)) ''stack'' =
     Some (StringValue ''no such game'') \<and>
   StringValue ''no such game'' \<noteq> (StringValue ''mine'' :: nat any)"
proof -
  have h: "Handlers ex_router (Method (ex_request ''Fail.Own'')) =
             Some (failing_handler own_failure)"
    by (simp add: ex_request_fields ex_router_fields)
  have "invoke ex ex_router (new_context ex_router 1 (JsonRPC2Conn ex 5) ex_consumer
            (ex_request ''Fail.Own'')) (ex_request ''Fail.Own'') (env ex_world) =
          ((NilValue, Some own_failure), ex_env0)"
    using ex_request_fields(1) h failing_handler_run by (rule invoke_returned)
  from Dispatch_error [OF ex_consumer_ok ex_request_fields(1) this]
  have "Dispatch ex ex_router 1 5 (ex_request ''Fail.Own'') ex_world =
     \<lparr>replies = [ReplyWithError ex_ID
        \<lparr>Code = 42, Message = ''no such game'',
         Data = Some (reply_data ex ''15.21.0, built on Apr 1'' own_failure
                        (Some (map_of own_data)))\<rparr>],
      env = ex_env0\<rparr>"
    by (simp add: ex_request_fields ex_router_fields ex_world_fields error_object_def
        classify_own [OF ex_own_capability]) (simp add: ex_def)
  moreover have "reply_data ex ''15.21.0, built on Apr 1'' own_failure (Some (map_of own_data))
      ''stack'' = Some (StringValue ''no such game'')"
    by (simp add: reply_data_stack) (simp add: ex_def own_failure_def)
  moreover have "map_of own_data ''stack'' = Some (StringValue ''mine'')"
    by (simp add: own_data_def)
  ultimately show ?thesis using h ex_own_capability by simp
qed

theorem Dispatch_error_data_witness:
  "Dispatch ex ex_router 1 5 (ex_request ''Fail.Own'') ex_world =
     \<lparr>replies = [ReplyWithError ex_ID
        (error_object ex ''15.21.0, built on Apr 1'' own_failure)], env = ex_env0\<rparr> \<and>
   Data (error_object ex ''15.21.0, built on Apr 1'' own_failure) =
     Some (reply_data ex ''15.21.0, built on Apr 1'' own_failure (Some (map_of own_data))) \<and>
   reply_data ex ''15.21.0, built on Apr 1'' own_failure (Some (map_of own_data)) ''stack'' =
     Some (StringValue ''no such game'') \<and>
   reply_data ex ''15.21.0, built on Apr 1'' own_failure (Some (map_of own_data))
     ''butlerVersion'' = Some (StringValue ''15.21.0, built on Apr 1'') \<and>
   reply_data ex ''15.21.0, built on Apr 1'' own_failure (Some (map_of own_data)) ''gameId'' =
     Some (Opaque 7)"
proof -
  have h: "Handlers ex_router (Method (ex_request ''Fail.Own'')) =
             Some (failing_handler own_failure)"
    by (simp add: ex_request_fields ex_router_fields)
  have i: "invoke ex ex_router (new_context ex_router 1 (JsonRPC2Conn ex 5) ex_consumer
            (ex_request ''Fail.Own'')) (ex_request ''Fail.Own'') (env ex_world) =
          ((NilValue, Some own_failure), ex_env0)"
    using ex_request_fields(1) h failing_handler_run by (rule invoke_returned)
  have s: "snd (snd (classify ex own_failure)) = Some (map_of own_data)"
    by (simp add: classify_own [OF ex_own_capability])
  have g: "''gameId'' \<noteq> ''stack'' \<and> ''gameId'' \<noteq> ''butlerVersion''"
    by simp
  from Dispatch_error_data [OF ex_consumer_ok ex_request_fields(1) i] g show ?thesis
    by (simp add: s ex_request_fields ex_router_fields ex_world_fields)
      (simp add: ex_def own_failure_def own_data_def)
qed

subsection \<open>Unknown methods\<close>

text \<open>
  C4. For a request whose method has no entry in \<open>Handlers\<close>, \<open>Dispatch\<close> sends one error
  reply with the code \<open>CodeMethodNotFound\<close> (-32601) and the message
  \<^verbatim>\<open>Method '<method>' not found\<close>, and leaves the environment as it was, whatever
  handlers the router has: none has run. The \<open>RpcError\<close> built for it is taken to expose
  its code and message through \<open>AsButlerdError\<close>.
\<close>

theorem Dispatch_method_not_found:
  assumes consumer: "NewStateConsumer X ctx (JsonRPC2Conn X origConn) = Inr consumer"
    and request: "\<not> Notif req"
    and absent: "Handlers r (Method req) = None"
    and capability:
      "AsButlerdError X (RpcError X CodeMethodNotFound
          (''Method '' @ [CHR 0x27] @ Method req @ [CHR 0x27] @ '' not found'')) = Some ee"
      "RpcErrorCode ee = CodeMethodNotFound"
      "RpcErrorMessage ee = ''Method '' @ [CHR 0x27] @ Method req @ [CHR 0x27] @ '' not found''"
  shows
    "Dispatch X r ctx origConn req W =
       \<lparr>replies = replies W @
          [ReplyWithError (ID req)
             \<lparr>Code = - 32601,
              Message = ''Method '' @ [CHR 0x27] @ Method req @ [CHR 0x27] @ '' not found'',
              Data = json_Marshal X
                (reply_data X (router_ButlerVersionString r)
                   (RpcError X CodeMethodNotFound
                      (''Method '' @ [CHR 0x27] @ Method req @ [CHR 0x27] @ '' not found''))
                   (RpcErrorData ee))\<rparr>],
        env = env W\<rparr>"
proof -
  have "invoke X r (new_context r ctx (JsonRPC2Conn X origConn) consumer req) req (env W) =
     ((NilValue, Some (RpcError X CodeMethodNotFound (not_found_message (Method req)))), env W)"
    using request absent by (rule invoke_not_found)
  from Dispatch_error [OF consumer request this] capability show ?thesis
    by (simp add: error_object_def classify_own not_found_message_def CodeMethodNotFound_def)
qed

theorem Dispatch_method_not_found_witness:
  "Handlers ex_router (Method (ex_request ''No.Such'')) = None \<and>
   Dispatch ex ex_router 1 5 (ex_request ''No.Such'') ex_world =
     \<lparr>replies = [ReplyWithError ex_ID
        \<lparr>Code = - 32601, Message = ''Method '' @ [CHR 0x27] @ ''No.Such'' @ [CHR 0x27] @ '' not found'',
         Data = Some [''stack'' \<mapsto> StringValue
                        (''Method '' @ [CHR 0x27] @ ''No.Such'' @ [CHR 0x27] @ '' not found''),
                      ''butlerVersion'' \<mapsto> StringValue ''15.21.0, built on Apr 1'']\<rparr>],
      env = ex_env0\<rparr>"
proof -
  have h: "Handlers ex_router (Method (ex_request ''No.Such'')) = None"
    by (simp add: ex_request_fields ex_router_fields)
  have c: "AsButlerdError ex (RpcError ex CodeMethodNotFound
          (''Method '' @ [CHR 0x27] @ Method (ex_request ''No.Such'') @ [CHR 0x27] @ '' not found'')) =
        Some \<lparr>RpcErrorCode = CodeMethodNotFound,
          RpcErrorMessage =
            ''Method '' @ [CHR 0x27] @ Method (ex_request ''No.Such'') @ [CHR 0x27] @ '' not found'',
          RpcErrorData = None\<rparr>"
    by (simp add: ex_def ex_AsButlerdError_def)
  from Dispatch_method_not_found [OF ex_consumer_ok ex_request_fields(1) h c] h show ?thesis
    by (simp add: ex_request_fields ex_router_fields ex_world_fields reply_data_def)
      (simp add: ex_def)
qed

subsection \<open>Notifications\<close>

text \<open>
  C6. For a notification, the replies made on the connection after \<open>Dispatch\<close> are those
  made before it, in every case; when the method has no entry in \<open>NotificationHandlers\<close>
  nothing changes at all; and when the handler runs, whether it returns or panics
  (\<open>out\<close>), only the environment changes, to what the handler left.
\<close>

theorem Dispatch_notification_no_reply:
  "(Notif req \<longrightarrow> replies (Dispatch X r ctx origConn req W) = replies W) \<and>
   (Notif req \<and> NotificationHandlers r (Method req) = None \<longrightarrow>
      Dispatch X r ctx origConn req W = W) \<and>
   (\<forall>consumer nh out p w'.
      Notif req \<and> NewStateConsumer X ctx (JsonRPC2Conn X origConn) = Inr consumer \<and>
      NotificationHandlers r (Method req) = Some nh \<and>
      nh (new_context r ctx (JsonRPC2Conn X origConn) consumer req) (fresh, env W)
        = (out, (p, w')) \<longrightarrow>
      Dispatch X r ctx origConn req W = W\<lparr>env := w'\<rparr>)"
proof -
  have "Dispatch X r ctx origConn req W = W"
    if "Notif req" "NotificationHandlers r (Method req) = None"
    using that by (simp add: Dispatch_def Let_def invoke_dropped split: sum.split)
  moreover have "Dispatch X r ctx origConn req W = W\<lparr>env := w'\<rparr>"
    if "Notif req" "NewStateConsumer X ctx (JsonRPC2Conn X origConn) = Inr consumer"
      "NotificationHandlers r (Method req) = Some nh"
      "nh (new_context r ctx (JsonRPC2Conn X origConn) consumer req) (fresh, env W)
        = (out, (p, w'))"
    for consumer nh out p w'
    using invoke_notification [OF that(1) that(3) that(4), of X] that(1,2)
    by (auto simp add: Dispatch_def Let_def)
  ultimately show ?thesis
    by (simp add: Dispatch_notification)
qed

theorem Dispatch_notification_no_reply_witness:
  "Notif (ex_notification ''Ping'') \<and>
   Dispatch ex ex_router 1 5 (ex_notification ''Ping'') ex_world =
     \<lparr>replies = [], env = \<lparr>notified = [(''Pong'', NilValue)], in_use = 0, cancelled = [], captured = []\<rparr>\<rparr> \<and>
   Dispatch ex ex_router 1 5 (ex_notification ''Crash'') ex_world = ex_world \<and>
   Dispatch ex ex_router 1 5 (ex_notification ''No.Such'') ex_world = ex_world \<and>
   replies (Dispatch ex ex_router 1 5 (ex_notification ''Crash'') ex_world) = []"
proof -
  note t = Dispatch_notification_no_reply [where X = ex and r = ex_router and ctx = 1
      and origConn = 5 and W = ex_world]
  have ping: "ping_handler (new_context ex_router 1 (JsonRPC2Conn ex 5) ex_consumer
        (ex_notification ''Ping'')) (fresh, env ex_world) =
      (None, (fresh, \<lparr>notified = [(''Pong'', NilValue)], in_use = 0, cancelled = [], captured = []\<rparr>))"
    by (simp add: ping_handler_def Notify_def fresh_def new_context_def ex_def ex_Notify_def
        ex_world_def ex_env0_def)
  have crash: "crash_handler (new_context ex_router 1 (JsonRPC2Conn ex 5) ex_consumer
        (ex_notification ''Crash'')) (fresh, env ex_world) =
      (Some (PanicOther (StringValue ''boom'')), (fresh, ex_env0))"
    by (simp add: crash_handler_def ex_world_def)
  have "Dispatch ex ex_router 1 5 (ex_notification ''Ping'') ex_world =
     \<lparr>replies = [], env = \<lparr>notified = [(''Pong'', NilValue)], in_use = 0, cancelled = [], captured = []\<rparr>\<rparr>"
    using t [of "ex_notification ''Ping''"] ping ex_consumer_ok
    by (simp add: ex_notification_fields ex_router_fields) (simp add: ex_world_def)
  moreover have "Dispatch ex ex_router 1 5 (ex_notification ''Crash'') ex_world = ex_world"
    using t [of "ex_notification ''Crash''"] crash ex_consumer_ok
    by (simp add: ex_notification_fields ex_router_fields) (simp add: ex_world_def)
  moreover have "Dispatch ex ex_router 1 5 (ex_notification ''No.Such'') ex_world = ex_world"
    using t [of "ex_notification ''No.Such''"]
    by (simp add: ex_notification_fields ex_router_fields)
  moreover have "replies (Dispatch ex ex_router 1 5 (ex_notification ''Crash'') ex_world) = []"
    using t [of "ex_notification ''Crash''"]
    by (simp add: ex_notification_fields ex_world_fields)
  ultimately show ?thesis by (simp add: ex_notification_fields)
qed

subsection \<open>A consumer that cannot be built\<close>

text \<open>
  C10. When \<open>NewStateConsumer\<close> fails, \<open>Dispatch\<close> returns the state it was given: no
  reply, no handler, for a request as for a notification.
\<close>

theorem Dispatch_without_consumer:
  "NewStateConsumer X ctx (JsonRPC2Conn X origConn) = Inl cErr \<Longrightarrow>
   Dispatch X r ctx origConn req W = W"
  by (simp add: Dispatch_def)

theorem Dispatch_without_consumer_witness:
  "NewStateConsumer ex 0 (JsonRPC2Conn ex 5) = Inl (Fundamental ''NewConsumer: missing Ctx'') \<and>
   Dispatch ex ex_router 0 5 (ex_request ''Version.Get'') ex_world = ex_world \<and>
   Dispatch ex ex_router 0 5 (ex_notification ''Ping'') ex_world = ex_world"
proof -
  have c: "NewStateConsumer ex 0 (JsonRPC2Conn ex 5) = Inl (Fundamental ''NewConsumer: missing Ctx'')"
    by (simp add: ex_def)
  from Dispatch_without_consumer [OF c] c show ?thesis by simp
qed

subsection \<open>The cancellation registry\<close>

text \<open>
  C5. For an identifier \<open>ident\<close> registered with the callback \<open>f\<close>, the first \<open>Call ident\<close>
  returns true, leaves the environment as one application of \<open>f\<close> leaves it, and removes
  the entry (every other entry stays); a second \<open>Call ident\<close> then returns false and changes
  neither the registry nor the environment. The same holds right after \<open>Add ident f\<close>. On an
  identifier that is not registered, \<open>Call\<close> returns false and changes nothing.
\<close>

theorem CancelFuncs_Call_once:
  "(Funcs cf ident = Some f \<longrightarrow>
      CancelFuncs_Call cf ident w = (True, CancelFuncs_Remove cf ident, f w) \<and>
      Funcs (CancelFuncs_Remove cf ident) ident = None \<and>
      (\<forall>other. other \<noteq> ident \<longrightarrow> Funcs (CancelFuncs_Remove cf ident) other = Funcs cf other) \<and>
      CancelFuncs_Call (CancelFuncs_Remove cf ident) ident (f w) = (False, CancelFuncs_Remove cf ident, f w)) \<and>
   Funcs (CancelFuncs_Add cf ident f) ident = Some f \<and>
   (Funcs cf ident = None \<longrightarrow> CancelFuncs_Call cf ident w = (False, cf, w))"
  by (simp add: CancelFuncs_Call_def CancelFuncs_Remove_def CancelFuncs_Add_def)

theorem CancelFuncs_Call_once_witness:
  "Funcs (CancelFuncs_Add \<lparr>Funcs = Map.empty\<rparr> ''abc''
            (\<lambda>w. w\<lparr>cancelled := cancelled w @ [''abc'']\<rparr>)) ''abc''
     = Some (\<lambda>w. w\<lparr>cancelled := cancelled w @ [''abc'']\<rparr>) \<and>
   CancelFuncs_Call
       (CancelFuncs_Add \<lparr>Funcs = Map.empty\<rparr> ''abc''
          (\<lambda>w. w\<lparr>cancelled := cancelled w @ [''abc'']\<rparr>))
       ''abc'' ex_env0
     = (True, \<lparr>Funcs = Map.empty\<rparr>, \<lparr>notified = [], in_use = 0, cancelled = [''abc''], captured = []\<rparr>) \<and>
   CancelFuncs_Call \<lparr>Funcs = Map.empty\<rparr> ''abc''
       \<lparr>notified = [], in_use = 0, cancelled = [''abc''], captured = []\<rparr>
     = (False, \<lparr>Funcs = Map.empty\<rparr>, \<lparr>notified = [], in_use = 0, cancelled = [''abc''], captured = []\<rparr>)"
  using CancelFuncs_Call_once
    [of "CancelFuncs_Add \<lparr>Funcs = Map.empty\<rparr> ''abc''
           (\<lambda>w. w\<lparr>cancelled := cancelled w @ [''abc'']\<rparr>)"
        "''abc''" "\<lambda>w. w\<lparr>cancelled := cancelled w @ [''abc'']\<rparr>" ex_env0]
  by (simp add: CancelFuncs_Add_def CancelFuncs_Remove_def ex_env0_def)

subsection \<open>ProfileClient\<close>

text \<open>
  C7. \<open>ProfileClient 0\<close> panics and leaves the environment untouched, whatever the pool
  and the lookup are: neither is used. For a nonzero \<open>profileID\<close>, when the lookup on the
  acquired connection \<open>conn\<close> finds no profile, or finds one with an empty \<open>APIKey\<close>,
  \<open>ProfileClient\<close> panics, and the environment it leaves is the one after the lookup
  with \<open>conn\<close> put back in the pool.
\<close>

theorem ProfileClient_failures:
  "ProfileClient X rc 0 w = (Inl (PanicError (errors_New X ''profileId must be non-zero'')), w) \<and>
   (\<forall>conn w1 w2.
      profileID \<noteq> 0 \<and> Pool_Get X (DBPool rc) (Ctx rc) w = (conn, w1) \<and>
      ProfileByID X conn profileID w1 = (None, w2) \<longrightarrow>
      ProfileClient X rc profileID w =
        (Inl (PanicError (errors_Errorf X (''Could not find profile '' @ Sprintf_d profileID))),
         Pool_Put X (DBPool rc) conn w2)) \<and>
   (\<forall>conn w1 w2 pr.
      profileID \<noteq> 0 \<and> Pool_Get X (DBPool rc) (Ctx rc) w = (conn, w1) \<and>
      ProfileByID X conn profileID w1 = (Some pr, w2) \<and> APIKey pr = [] \<longrightarrow>
      ProfileClient X rc profileID w =
        (Inl (PanicError (errors_Errorf X
           (''Profile '' @ Sprintf_d profileID @ '' lacks API key''))),
         Pool_Put X (DBPool rc) conn w2))"
  by (simp add: ProfileClient_def)

theorem ProfileClient_failures_witness:
  "ProfileClient ex ex_rc 0 ex_env0 =
     (Inl (PanicError (Fundamental ''profileId must be non-zero'')), ex_env0) \<and>
   Pool_Get ex (DBPool ex_rc) (Ctx ex_rc) ex_env0 = (0, ex_env0\<lparr>in_use := 1\<rparr>) \<and>
   ProfileByID ex 0 3 (ex_env0\<lparr>in_use := 1\<rparr>) = (None, ex_env0\<lparr>in_use := 1\<rparr>) \<and>
   ProfileClient ex ex_rc 3 ex_env0 =
     (Inl (PanicError (Fundamental ''Could not find profile 3'')), ex_env0) \<and>
   ProfileByID ex 0 2 (ex_env0\<lparr>in_use := 1\<rparr>) = (Some \<lparr>APIKey = []\<rparr>, ex_env0\<lparr>in_use := 1\<rparr>) \<and>
   ProfileClient ex ex_rc 2 ex_env0 =
     (Inl (PanicError (Fundamental ''Profile 2 lacks API key'')), ex_env0)"
proof -
  have g: "Pool_Get ex (DBPool ex_rc) (Ctx ex_rc) ex_env0 = (0, ex_env0\<lparr>in_use := 1\<rparr>)"
    by (simp add: ex_def ex_env0_def)
  have l3: "ProfileByID ex 0 3 (ex_env0\<lparr>in_use := 1\<rparr>) = (None, ex_env0\<lparr>in_use := 1\<rparr>)"
    by (simp add: ex_def ex_ProfileByID_def)
  have l2: "ProfileByID ex 0 2 (ex_env0\<lparr>in_use := 1\<rparr>) =
      (Some \<lparr>APIKey = []\<rparr>, ex_env0\<lparr>in_use := 1\<rparr>)"
    by (simp add: ex_def ex_ProfileByID_def)
  have p: "Pool_Put ex (DBPool ex_rc) 0 (ex_env0\<lparr>in_use := Suc 0\<rparr>) = ex_env0"
    by (simp add: ex_def ex_env0_def)
  have e: "errors_New ex = Fundamental" "errors_Errorf ex = Fundamental"
    by (simp_all add: ex_def)
  have d: "Sprintf_d 3 = ''3''" "Sprintf_d 2 = ''2''"
    by (simp_all add: Sprintf_d_def)
  from ProfileClient_failures [of ex ex_rc ex_env0 3] g l3
  have "ProfileClient ex ex_rc 0 ex_env0 =
     (Inl (PanicError (Fundamental ''profileId must be non-zero'')), ex_env0) \<and>
   ProfileClient ex ex_rc 3 ex_env0 =
     (Inl (PanicError (Fundamental ''Could not find profile 3'')), ex_env0)"
    by (simp add: p e d)
  moreover from ProfileClient_failures [of ex ex_rc ex_env0 2] g l2
  have "ProfileClient ex ex_rc 2 ex_env0 =
     (Inl (PanicError (Fundamental ''Profile 2 lacks API key'')), ex_env0)"
    by (simp add: p e d)
  ultimately show ?thesis using g l3 l2 by simp
qed

subsection \<open>The progress callback\<close>

text \<open>
  C8. A request handler runs on the context \<open>with_progress X rc\<close>. On that context, a
  progress signal \<open>alpha\<close> (\<open>Consumer.Progress\<close>) changes nothing when there is no tracker;
  when the tracker is \<open>t\<close>, the tracker becomes \<open>SetProgress alpha t\<close> and the environment
  is the one left by one call \<open>Notify "Progress"\<close> with \<open>alpha\<close> and the ETA (in seconds)
  and BPS of the updated tracker. Right after \<open>StartProgress\<close> on a fresh context, that
  call is one \<open>Conn.Notify\<close>.
\<close>

theorem progress_signal:
  shows
    "(\<forall>h. \<not> Notif req \<and> Handlers r (Method req) = Some h \<longrightarrow>
        invoke X r rc req w =
          (case h (with_progress X rc) (fresh, w) of
             (Inr (res, err), (p, w')) \<Rightarrow> ((res, err), w')
           | (Inl pv, (p, w')) \<Rightarrow> ((NilValue, recovered X pv), w'))) \<and>
     (tracker p = None \<longrightarrow>
        Consumer_Progress (Consumer (with_progress X rc)) alpha (p, w) = (p, w)) \<and>
     (\<forall>t. tracker p = Some t \<longrightarrow>
        Consumer_Progress (Consumer (with_progress X rc)) alpha (p, w) =
          (p\<lparr>tracker := Some (SetProgress X alpha t)\<rparr>,
           snd (Notify rc p ''Progress''
                  (ProgressNotification alpha
                     (Seconds X (tracker_ETA X (SetProgress X alpha t)))
                     (tracker_BPS X (SetProgress X alpha t))) w))) \<and>
     Consumer_Progress (Consumer (with_progress X rc)) alpha
         (StartProgress X (with_progress X rc) (fresh, w)) =
       (\<lparr>notificationInterceptors = None,
         tracker = Some (SetProgress X alpha (tracker_Start X (SetTotalBytes X 0
                     (SetProgress X 0 (SetSilent X True (NewTracker X))))))\<rparr>,
        snd (Conn_Notify (Conn rc) (Ctx rc) ''Progress''
               (ProgressNotification alpha
                  (Seconds X (tracker_ETA X (SetProgress X alpha (tracker_Start X
                     (SetTotalBytes X 0 (SetProgress X 0 (SetSilent X True (NewTracker X))))))))
                  (tracker_BPS X (SetProgress X alpha (tracker_Start X
                     (SetTotalBytes X 0 (SetProgress X 0 (SetSilent X True (NewTracker X))))))))
               w))"
  by (simp add: invoke_def Consumer_Progress_def with_progress_def OnProgress_func_def Let_def
      StartProgress_def StartProgressWithTotalBytes_def StartProgressWithInitialAndTotal_def
      fresh_def Notify_def split: prod.split sum.split)

theorem progress_signal_witness:
  "invoke ex ex_router ex_rc (ex_request ''Version.Get'') ex_env0 =
     ((StringValue ''15.21.0, built on Apr 1'', None), ex_env0) \<and>
   Consumer_Progress (Consumer (with_progress ex ex_rc)) 0x3FE0000000000000 (fresh, ex_env0) =
     (fresh, ex_env0) \<and>
   Consumer_Progress (Consumer (with_progress ex ex_rc)) 0x3FE0000000000000
       (StartProgress ex (with_progress ex ex_rc) (fresh, ex_env0)) =
     (\<lparr>notificationInterceptors = None,
       tracker = Some \<lparr>fraction = 0x3FE0000000000000, total = 0, silent = True,
                        running = True\<rparr>\<rparr>,
      \<lparr>notified = [(''Progress'', ProgressNotification 0x3FE0000000000000 0 0)], in_use = 0,
        cancelled = [], captured = []\<rparr>) \<and>
   Consumer_Progress (Consumer (with_progress ex ex_rc)) 0x3FE0000000000000
       (InterceptNotification
          \<lparr>notificationInterceptors = None,
            tracker = Some \<lparr>fraction = 0, total = 0, silent = True, running = True\<rparr>\<rparr>
          ''Progress'' ex_interceptor, ex_env0) =
     (InterceptNotification
          \<lparr>notificationInterceptors = None,
            tracker = Some \<lparr>fraction = 0x3FE0000000000000, total = 0, silent = True,
                             running = True\<rparr>\<rparr>
          ''Progress'' ex_interceptor,
      \<lparr>notified = [], in_use = 0, cancelled = [],
        captured = [(''Progress'', ProgressNotification 0x3FE0000000000000 0 0)]\<rparr>)"
proof -
  have h: "\<not> Notif (ex_request ''Version.Get'') \<and>
      Handlers ex_router (Method (ex_request ''Version.Get'')) = Some version_handler"
    by (simp add: ex_request_def ex_router_def)
  have t: "tracker (fresh :: (ex_error, nat, ex_tracker, ex_env) rc_private) = None"
    by (simp add: fresh_def)
  have t': "tracker (InterceptNotification
          \<lparr>notificationInterceptors = None,
            tracker = Some \<lparr>fraction = 0, total = 0, silent = True, running = True\<rparr>\<rparr>
          ''Progress'' ex_interceptor) =
        Some \<lparr>fraction = 0, total = 0, silent = True, running = True\<rparr>"
    by (simp add: InterceptNotification_def)
  note a = progress_signal [where X = ex and rc = ex_rc and r = ex_router and w = ex_env0
      and alpha = "0x3FE0000000000000" and req = "ex_request ''Version.Get''"]
  have "invoke ex ex_router ex_rc (ex_request ''Version.Get'') ex_env0 =
     ((StringValue ''15.21.0, built on Apr 1'', None), ex_env0)"
    using a [of fresh] h
    by (simp add: version_handler_def with_progress_def ex_rc_def)
  moreover have "Consumer_Progress (Consumer (with_progress ex ex_rc)) 0x3FE0000000000000
      (fresh, ex_env0) = (fresh, ex_env0)"
    using a [of fresh] t by simp
  moreover have "Consumer_Progress (Consumer (with_progress ex ex_rc)) 0x3FE0000000000000
       (StartProgress ex (with_progress ex ex_rc) (fresh, ex_env0)) =
     (\<lparr>notificationInterceptors = None,
       tracker = Some \<lparr>fraction = 0x3FE0000000000000, total = 0, silent = True,
                        running = True\<rparr>\<rparr>,
      \<lparr>notified = [(''Progress'', ProgressNotification 0x3FE0000000000000 0 0)], in_use = 0,
        cancelled = [], captured = []\<rparr>)"
    using a [of fresh]
    by (simp add: ex_def ex_rc_def ex_Notify_def ex_env0_def)
  moreover have "Consumer_Progress (Consumer (with_progress ex ex_rc)) 0x3FE0000000000000
       (InterceptNotification
          \<lparr>notificationInterceptors = None,
            tracker = Some \<lparr>fraction = 0, total = 0, silent = True, running = True\<rparr>\<rparr>
          ''Progress'' ex_interceptor, ex_env0) =
     (InterceptNotification
          \<lparr>notificationInterceptors = None,
            tracker = Some \<lparr>fraction = 0x3FE0000000000000, total = 0, silent = True,
                             running = True\<rparr>\<rparr>
          ''Progress'' ex_interceptor,
      \<lparr>notified = [], in_use = 0, cancelled = [],
        captured = [(''Progress'', ProgressNotification 0x3FE0000000000000 0 0)]\<rparr>)"
    using a [of "InterceptNotification
          \<lparr>notificationInterceptors = None,
            tracker = Some \<lparr>fraction = 0, total = 0, silent = True, running = True\<rparr>\<rparr>
          ''Progress'' ex_interceptor"] t'
    by (simp add: ex_def Notify_def InterceptNotification_def ex_interceptor_def ex_env0_def)
  ultimately show ?thesis by simp
qed

subsection \<open>Interception of notifications\<close>

text \<open>
  C9. After \<open>InterceptNotification method ni\<close>, \<open>Notify method\<close> is the call of \<open>ni\<close> and its
  result, and \<open>Notify\<close> of another method is as before. With an interceptor \<open>f\<close> in the
  table for the method, \<open>Notify\<close> is the call of \<open>f\<close>. With a nil table, with a table that
  has no entry for the method, after \<open>StopInterceptingNotification method\<close> and on a fresh
  context, \<open>Notify\<close> is \<open>Conn.Notify\<close>.
\<close>

theorem Notify_interception:
  "Notify rc (InterceptNotification p method ni) method params w = ni method params w \<and>
   (other \<noteq> method \<longrightarrow>
      Notify rc (InterceptNotification p method ni) other params w = Notify rc p other params w) \<and>
   (notificationInterceptors p = None \<longrightarrow>
      Notify rc p method params w = Conn_Notify (Conn rc) (Ctx rc) method params w) \<and>
   (\<forall>table. notificationInterceptors p = Some table \<and> table method = None \<longrightarrow>
      Notify rc p method params w = Conn_Notify (Conn rc) (Ctx rc) method params w) \<and>
   (\<forall>table f. notificationInterceptors p = Some table \<and> table method = Some f \<longrightarrow>
      Notify rc p method params w = f method params w) \<and>
   Notify rc (StopInterceptingNotification p method) method params w =
     Conn_Notify (Conn rc) (Ctx rc) method params w \<and>
   Notify rc fresh method params w = Conn_Notify (Conn rc) (Ctx rc) method params w"
  by (simp add: Notify_def InterceptNotification_def StopInterceptingNotification_def fresh_def
      split: option.split)

theorem Notify_interception_witness:
  "Notify ex_rc (InterceptNotification fresh ''Log'' ex_interceptor) ''Log'' (StringValue ''hi'')
       ex_env0 =
     (Some (Fundamental ''kept''),
      \<lparr>notified = [], in_use = 0, cancelled = [], captured = [(''Log'', StringValue ''hi'')]\<rparr>) \<and>
   Notify ex_rc (InterceptNotification fresh ''Log'' ex_interceptor) ''Progress'' NilValue ex_env0 =
     (None, \<lparr>notified = [(''Progress'', NilValue)], in_use = 0, cancelled = [],
             captured = []\<rparr>) \<and>
   Notify ex_rc (StopInterceptingNotification (InterceptNotification fresh ''Log'' ex_interceptor)
       ''Log'') ''Log'' (StringValue ''hi'') ex_env0 =
     (None, \<lparr>notified = [(''Log'', StringValue ''hi'')], in_use = 0, cancelled = [],
             captured = []\<rparr>) \<and>
   Notify ex_rc fresh ''Log'' (StringValue ''hi'') ex_env0 =
     (None, \<lparr>notified = [(''Log'', StringValue ''hi'')], in_use = 0, cancelled = [],
             captured = []\<rparr>)"
proof -
  have c: "Conn_Notify (Conn ex_rc) (Ctx ex_rc) name ps ex_env0 =
      (None, \<lparr>notified = [(name, ps)], in_use = 0, cancelled = [], captured = []\<rparr>)"
    for name ps
    by (simp add: ex_rc_def ex_Notify_def ex_env0_def)
  have i: "ex_interceptor name ps ex_env0 =
      (Some (Fundamental ''kept''),
       \<lparr>notified = [], in_use = 0, cancelled = [], captured = [(name, ps)]\<rparr>)"
    for name ps
    by (simp add: ex_interceptor_def ex_env0_def)
  have n: "notificationInterceptors (fresh :: (ex_error, nat, ex_tracker, ex_env) rc_private) = None"
    by (simp add: fresh_def)
  have d: "''Progress'' \<noteq> ''Log''"
    by simp
  from Notify_interception
    [of ex_rc fresh "''Log''" ex_interceptor "StringValue ''hi''" ex_env0 "''Progress''"]
    Notify_interception
    [of ex_rc fresh "''Progress''" ex_interceptor NilValue ex_env0 "''Progress''"]
    Notify_interception
    [of ex_rc "InterceptNotification fresh ''Log'' ex_interceptor" "''Log''" ex_interceptor
        "StringValue ''hi''" ex_env0 "''Progress''"]
    Notify_interception
    [of ex_rc fresh "''Log''" ex_interceptor NilValue ex_env0 "''Progress''"] 
  show ?thesis
    by (simp add: c i n d)
qed

end
